theory Spec2Isabelle
  imports Complex_Main
begin

section \<open>SQL values\<close>

text \<open>
  The migration embedded in \<^verbatim>\<open>src/components/WorkProgressTracker.js\<close> (lines 611 to 1092)
  declares tables, policies and four PL/pgSQL trigger functions. A nullable column is an
  \<open>option\<close> (\<open>None\<close> is SQL NULL); a comparison with NULL is NULL, and an \<^verbatim>\<open>IF\<close> or a
  \<^verbatim>\<open>WHERE\<close> takes a row only when its condition is true, not when it is NULL.
\<close>

type_synonym uuid = nat
type_synonym sql_text = string
type_synonym timestamptz = nat

definition sql_eq :: "'a option \<Rightarrow> 'a option \<Rightarrow> bool option" where
  "sql_eq x y = (case (x, y) of (Some a, Some b) \<Rightarrow> Some (a = b) | _ \<Rightarrow> None)"

definition sql_neq :: "'a option \<Rightarrow> 'a option \<Rightarrow> bool option" where
  "sql_neq x y = (case (x, y) of (Some a, Some b) \<Rightarrow> Some (a \<noteq> b) | _ \<Rightarrow> None)"

definition sql_and :: "bool option \<Rightarrow> bool option \<Rightarrow> bool option" where
  "sql_and p q =
     (if p = Some False \<or> q = Some False then Some False
      else if p = Some True \<and> q = Some True then Some True
      else None)"

definition is_true :: "bool option \<Rightarrow> bool" where
  "is_true c = (c = Some True)"

text \<open>\<^verbatim>\<open>x IN (v1, ..., vn)\<close> with literal, non-null values.\<close>

definition sql_in :: "'a option \<Rightarrow> 'a list \<Rightarrow> bool option" where
  "sql_in x vs = (case x of None \<Rightarrow> None | Some a \<Rightarrow> Some (a \<in> set vs))"

text \<open>\<^verbatim>\<open>upvotes + 1\<close>: NULL when the column is NULL.\<close>

definition sql_plus :: "int option \<Rightarrow> int \<Rightarrow> int option" where
  "sql_plus x n = (case x of None \<Rightarrow> None | Some a \<Rightarrow> Some (a + n))"

text \<open>\<^verbatim>\<open>GREATEST(e, 0)\<close>: PostgreSQL's GREATEST ignores NULL arguments.\<close>

definition sql_greatest :: "int option \<Rightarrow> int \<Rightarrow> int option" where
  "sql_greatest x n = (case x of None \<Rightarrow> Some n | Some a \<Rightarrow> Some (max a n))"

text \<open>A CHECK constraint rejects a row only when its condition is false.\<close>

definition check_passes :: "bool option \<Rightarrow> bool" where
  "check_passes c = (c \<noteq> Some False)"

section \<open>Tables\<close>

text \<open>
  \<open>areas\<close> and \<open>issue_assignments\<close> are created by the migration (lines 633 and 665);
  \<open>issues\<close>, \<open>profiles\<close>, \<open>tenders\<close> and \<open>issue_votes\<close> are created elsewhere, and only
  the columns the migration adds or its triggers read and write appear here. Columns
  whose declaration is not in the sources are taken as nullable, the general case.
  The counters \<open>upvotes\<close> and \<open>downvotes\<close> are unbounded integers: their column type is
  not in the sources.
\<close>

record areas_row =
  areas_id :: uuid
  areas_name :: sql_text
  areas_is_active :: "bool option"

record profiles_row =
  profiles_id :: uuid
  profiles_user_type :: "sql_text option"
  profiles_is_verified :: "bool option"
  profiles_assigned_area_id :: "uuid option"

record issues_row =
  issues_id :: uuid
  issues_area :: "sql_text option"
  issues_status :: "sql_text option"
  issues_workflow_stage :: "sql_text option"
  issues_assigned_area_id :: "uuid option"
  issues_current_assignee_id :: "uuid option"
  issues_upvotes :: "int option"
  issues_downvotes :: "int option"
  issues_updated_at :: "timestamptz option"

record tenders_row =
  tenders_id :: uuid
  tenders_status :: "sql_text option"
  tenders_awarded_to :: "uuid option"
  tenders_source_issue_id :: "uuid option"

record issue_votes_row =
  issue_votes_issue_id :: "uuid option"
  issue_votes_vote_type :: "sql_text option"

text \<open>
  A row of \<open>issue_assignments\<close> as an INSERT statement supplies it: every column may be
  NULL there, and the table's constraints decide whether the row is accepted.
\<close>

record issue_assignments_row =
  ia_id :: uuid
  ia_issue_id :: "uuid option"
  ia_assigned_by :: "uuid option"
  ia_assigned_to :: "uuid option"
  ia_assigned_department_id :: "uuid option"
  ia_assigned_area_id :: "uuid option"
  ia_assignment_type :: "sql_text option"
  ia_assignment_notes :: "sql_text option"
  ia_status :: "sql_text option"
  ia_due_date :: "timestamptz option"
  ia_completed_at :: "timestamptz option"
  ia_created_at :: "timestamptz option"
  ia_updated_at :: "timestamptz option"

record db =
  areas :: "areas_row list"
  profiles :: "profiles_row list"
  issues :: "issues_row list"
  issue_assignments :: "issue_assignments_row list"

text \<open>
  What a statement sees of its session: \<^verbatim>\<open>auth.uid()\<close> (NULL without an authenticated
  caller), \<^verbatim>\<open>now()\<close>, and the value \<^verbatim>\<open>gen_random_uuid()\<close> gives the next inserted row,
  a key no row has yet. The session acts under the role \<open>authenticated\<close>, the one the
  policies are written for. Row level security is modelled where the migration declares
  it and a trigger writes: the INSERT policy of \<open>issue_assignments\<close>. The policies of
  \<open>issues\<close>, \<open>profiles\<close> and \<open>tenders\<close> are not in the sources; their rows are taken as
  visible to the caller.
\<close>

record session =
  auth_uid :: "uuid option"
  now :: timestamptz
  gen_random_uuid :: uuid

datatype sql_error =
    not_null_violation sql_text
  | foreign_key_violation sql_text
  | check_violation sql_text
  | unique_violation sql_text
  | row_security_violation sql_text

section \<open>Issue creation: \<open>auto_assign_issue_to_area\<close>\<close>

text \<open>
  Lines 944 to 970. The two scalar subqueries of the UPDATE: the first row of the
  selection, NULL when it is empty. \<^verbatim>\<open>LIMIT 1\<close> without an ordering takes an arbitrary
  row; the model takes the first in table order. The subqueries read \<open>areas\<close> as a
  caller who sees every row of it.
\<close>

definition select_area_id :: "db \<Rightarrow> sql_text option \<Rightarrow> uuid option" where
  "select_area_id d new_area =
     (case filter (\<lambda>a. is_true (sql_and (sql_eq (Some (areas_name a)) new_area)
                                         (sql_eq (areas_is_active a) (Some True))))
                  (areas d)
      of [] \<Rightarrow> None | a # _ \<Rightarrow> Some (areas_id a))"

definition select_area_admin_id :: "db \<Rightarrow> sql_text option \<Rightarrow> uuid option" where
  "select_area_admin_id d new_area =
     (case filter (\<lambda>(p, a).
              is_true (sql_and (sql_and (sql_eq (Some (areas_name a)) new_area)
                                        (sql_eq (profiles_user_type p) (Some ''area_super_admin'')))
                               (sql_eq (profiles_is_verified p) (Some True))))
            (concat (map (\<lambda>p. map (\<lambda>a. (p, a))
                 (filter (\<lambda>a. is_true (sql_eq (profiles_assigned_area_id p) (Some (areas_id a))))
                         (areas d)))
               (profiles d)))
      of [] \<Rightarrow> None | (p, a) # _ \<Rightarrow> Some (profiles_id p))"

text \<open>
  The trigger function: it returns the row to insert and the table state its UPDATE
  leaves. The UPDATE runs over the rows of \<open>issues\<close> that exist when the trigger fires.
\<close>

definition auto_assign_issue_to_area :: "db \<Rightarrow> issues_row \<Rightarrow> db \<times> issues_row" where
  "auto_assign_issue_to_area d NEW0 =
     (let NEW = NEW0\<lparr>issues_workflow_stage := Some ''area_review''\<rparr> in
      if issues_area NEW \<noteq> None then
        (d\<lparr>issues :=
             map (\<lambda>r. if issues_id r = issues_id NEW
                       then r\<lparr>issues_assigned_area_id := select_area_id d (issues_area NEW),
                              issues_current_assignee_id := select_area_admin_id d (issues_area NEW)\<rparr>
                       else r)
                 (issues d)\<rparr>,
         NEW)
      else (d, NEW))"

definition workflow_stages :: "sql_text list" where
  "workflow_stages = [''reported'', ''area_review'', ''department_assigned'',
     ''contractor_assigned'', ''in_progress'', ''department_review'', ''resolved'']"

definition references_areas :: "db \<Rightarrow> uuid option \<Rightarrow> bool" where
  "references_areas d k = (case k of None \<Rightarrow> True | Some i \<Rightarrow> i \<in> set (map areas_id (areas d)))"

definition references_profiles :: "db \<Rightarrow> uuid option \<Rightarrow> bool" where
  "references_profiles d k = (case k of None \<Rightarrow> True | Some i \<Rightarrow> i \<in> set (map profiles_id (profiles d)))"

definition references_issues :: "db \<Rightarrow> uuid option \<Rightarrow> bool" where
  "references_issues d k = (case k of None \<Rightarrow> True | Some i \<Rightarrow> i \<in> set (map issues_id (issues d)))"

text \<open>
  \<^verbatim>\<open>INSERT INTO issues\<close> of one row: the trigger \<open>auto_assign_new_issues\<close> fires
  BEFORE INSERT FOR EACH ROW (lines 974 to 977), so the row it returns is the one stored,
  after the row's constraints are checked: \<open>id\<close> is the key other tables reference
  (lines 667, 684), \<open>workflow_stage\<close> has the CHECK of line 732, and
  \<open>assigned_area_id\<close> and \<open>current_assignee_id\<close> are foreign keys (lines 764, 774).
  A failed statement leaves the database as it was.
\<close>

definition insert_issue :: "db \<Rightarrow> issues_row \<Rightarrow> sql_error + db" where
  "insert_issue d NEW0 =
     (case auto_assign_issue_to_area d NEW0 of (d1, NEW) \<Rightarrow>
        if issues_id NEW \<in> set (map issues_id (issues d1))
          then Inl (unique_violation ''issues_pkey'')
        else if \<not> check_passes (sql_in (issues_workflow_stage NEW) workflow_stages)
          then Inl (check_violation ''issues_workflow_stage_check'')
        else if \<not> references_areas d1 (issues_assigned_area_id NEW)
          then Inl (foreign_key_violation ''issues_assigned_area_id_fkey'')
        else if \<not> references_profiles d1 (issues_current_assignee_id NEW)
          then Inl (foreign_key_violation ''issues_current_assignee_id_fkey'')
        else Inr (d1\<lparr>issues := issues d1 @ [NEW]\<rparr>))"

section \<open>Tender award: \<open>handle_tender_award\<close>\<close>

text \<open>\<^verbatim>\<open>UPDATE issues SET ... WHERE id = k\<close>: no row has a NULL key, so a NULL \<open>k\<close> takes none.\<close>

definition issues_where_id :: "uuid option \<Rightarrow> issues_row \<Rightarrow> bool" where
  "issues_where_id k r = is_true (sql_eq (Some (issues_id r)) k)"

definition update_issues :: "uuid option \<Rightarrow> (issues_row \<Rightarrow> issues_row) \<Rightarrow> db \<Rightarrow> db" where
  "update_issues k f d = d\<lparr>issues := map (\<lambda>r. if issues_where_id k r then f r else r) (issues d)\<rparr>"

text \<open>
  The policy "Admins can create assignments" (lines 867 to 875), the only INSERT policy
  of the table, whose row level security line 823 enables. The trigger function is not
  declared SECURITY DEFINER (unlike \<open>handle_new_user\<close>, line 1085), so its INSERT is
  checked against the policy as the caller.
\<close>

definition admins_can_create_assignments :: "session \<Rightarrow> db \<Rightarrow> issue_assignments_row \<Rightarrow> bool option" where
  "admins_can_create_assignments s d row =
     sql_and (sql_eq (auth_uid s) (ia_assigned_by row))
       (Some (list_ex (\<lambda>p. is_true (sql_and (sql_eq (Some (profiles_id p)) (auth_uid s))
                                (sql_in (profiles_user_type p)
                                   [''admin'', ''area_super_admin'', ''department_admin''])))
                      (profiles d)))"

text \<open>
  \<^verbatim>\<open>INSERT INTO issue_assignments\<close> of one row, with the constraints of lines 665 to 679:
  the policy's WITH CHECK, then NOT NULL and CHECK, then the foreign keys.
\<close>

definition insert_issue_assignment :: "session \<Rightarrow> db \<Rightarrow> issue_assignments_row \<Rightarrow> sql_error + db" where
  "insert_issue_assignment s d row =
     (if \<not> is_true (admins_can_create_assignments s d row)
        then Inl (row_security_violation ''issue_assignments'')
      else if ia_issue_id row = None then Inl (not_null_violation ''issue_id'')
      else if ia_assigned_by row = None then Inl (not_null_violation ''assigned_by'')
      else if ia_assignment_type row = None then Inl (not_null_violation ''assignment_type'')
      else if ia_status row = None then Inl (not_null_violation ''status'')
      else if \<not> check_passes (sql_in (ia_assignment_type row)
                 [''admin_to_area'', ''area_to_department'', ''department_to_contractor''])
        then Inl (check_violation ''issue_assignments_assignment_type_check'')
      else if \<not> check_passes (sql_in (ia_status row)
                 [''active'', ''completed'', ''reassigned'', ''cancelled''])
        then Inl (check_violation ''issue_assignments_status_check'')
      else if \<not> references_issues d (ia_issue_id row)
        then Inl (foreign_key_violation ''issue_assignments_issue_id_fkey'')
      else if \<not> references_profiles d (ia_assigned_by row)
        then Inl (foreign_key_violation ''issue_assignments_assigned_by_fkey'')
      else if \<not> references_profiles d (ia_assigned_to row)
        then Inl (foreign_key_violation ''issue_assignments_assigned_to_fkey'')
      else Inr (d\<lparr>issue_assignments := issue_assignments d @ [row]\<rparr>))"

text \<open>
  The row the trigger's INSERT builds (lines 993 to 1007): six columns are given, the
  others take their defaults (lines 666, 674, 677, 678) or NULL.
\<close>

definition award_assignment :: "session \<Rightarrow> tenders_row \<Rightarrow> issue_assignments_row" where
  "award_assignment s NEW =
     \<lparr>ia_id = gen_random_uuid s,
      ia_issue_id = tenders_source_issue_id NEW,
      ia_assigned_by = auth_uid s,
      ia_assigned_to = tenders_awarded_to NEW,
      ia_assigned_department_id = None,
      ia_assigned_area_id = None,
      ia_assignment_type = Some ''department_to_contractor'',
      ia_assignment_notes = Some ''Tender awarded - contractor assigned'',
      ia_status = Some ''active'',
      ia_due_date = None,
      ia_completed_at = None,
      ia_created_at = Some (now s),
      ia_updated_at = Some (now s)\<rparr>"

text \<open>
  Lines 980 to 1012; the trigger fires AFTER UPDATE ON tenders FOR EACH ROW (lines 1016
  to 1019). An error raised in the trigger aborts the tender's UPDATE, and the database
  stays as it was: \<open>Inl\<close> carries no new state. The UPDATE of \<open>issues\<close> writes
  \<open>current_assignee_id\<close>, a foreign key to \<open>profiles\<close> (line 764).
\<close>

definition handle_tender_award :: "session \<Rightarrow> tenders_row \<Rightarrow> tenders_row \<Rightarrow> db \<Rightarrow> sql_error + db" where
  "handle_tender_award s OLD NEW d =
     (if is_true (sql_and (sql_eq (tenders_status NEW) (Some ''awarded''))
                          (sql_neq (tenders_status OLD) (Some ''awarded''))) then
        if list_ex (issues_where_id (tenders_source_issue_id NEW)) (issues d)
           \<and> \<not> references_profiles d (tenders_awarded_to NEW)
          then Inl (foreign_key_violation ''issues_current_assignee_id_fkey'')
        else
          insert_issue_assignment s
            (update_issues (tenders_source_issue_id NEW)
               (\<lambda>r. r\<lparr>issues_workflow_stage := Some ''contractor_assigned'',
                       issues_status := Some ''in_progress'',
                       issues_current_assignee_id := tenders_awarded_to NEW,
                       issues_updated_at := Some (now s)\<rparr>)
               d)
            (award_assignment s NEW)
      else Inr d)"

section \<open>Vote counters: \<open>update_issue_counts\<close>\<close>

text \<open>
  Lines 1022 to 1051; the trigger fires AFTER INSERT OR UPDATE OR DELETE ON issue_votes
  FOR EACH ROW (lines 1055 to 1058). An event is \<^verbatim>\<open>TG_OP\<close> with the rows it binds: NEW
  for an INSERT, OLD and NEW for an UPDATE, OLD for a DELETE.
\<close>

datatype issue_votes_event =
    TG_INSERT issue_votes_row
  | TG_UPDATE issue_votes_row issue_votes_row
  | TG_DELETE issue_votes_row

definition vote_type_is :: "issue_votes_row \<Rightarrow> sql_text \<Rightarrow> bool" where
  "vote_type_is v t = is_true (sql_eq (issue_votes_vote_type v) (Some t))"

fun update_issue_counts :: "sql_text \<Rightarrow> issue_votes_event \<Rightarrow> db \<Rightarrow> db" where
  "update_issue_counts tg_table_name (TG_INSERT NEW) d =
     (if tg_table_name = ''issue_votes'' then
        if vote_type_is NEW ''upvote'' then
          update_issues (issue_votes_issue_id NEW)
            (\<lambda>r. r\<lparr>issues_upvotes := sql_plus (issues_upvotes r) 1\<rparr>) d
        else if vote_type_is NEW ''downvote'' then
          update_issues (issue_votes_issue_id NEW)
            (\<lambda>r. r\<lparr>issues_downvotes := sql_plus (issues_downvotes r) 1\<rparr>) d
        else d
      else d)"
| "update_issue_counts tg_table_name (TG_DELETE OLD) d =
     (if tg_table_name = ''issue_votes'' then
        if vote_type_is OLD ''upvote'' then
          update_issues (issue_votes_issue_id OLD)
            (\<lambda>r. r\<lparr>issues_upvotes := sql_greatest (sql_plus (issues_upvotes r) (- 1)) 0\<rparr>) d
        else if vote_type_is OLD ''downvote'' then
          update_issues (issue_votes_issue_id OLD)
            (\<lambda>r. r\<lparr>issues_downvotes := sql_greatest (sql_plus (issues_downvotes r) (- 1)) 0\<rparr>) d
        else d
      else d)"
| "update_issue_counts tg_table_name (TG_UPDATE OLD NEW) d =
     (if tg_table_name = ''issue_votes'' then
        if vote_type_is OLD ''upvote'' \<and> vote_type_is NEW ''downvote'' then
          update_issues (issue_votes_issue_id NEW)
            (\<lambda>r. r\<lparr>issues_upvotes := sql_greatest (sql_plus (issues_upvotes r) (- 1)) 0,
                    issues_downvotes := sql_plus (issues_downvotes r) 1\<rparr>) d
        else if vote_type_is OLD ''downvote'' \<and> vote_type_is NEW ''upvote'' then
          update_issues (issue_votes_issue_id NEW)
            (\<lambda>r. r\<lparr>issues_downvotes := sql_greatest (sql_plus (issues_downvotes r) (- 1)) 0,
                    issues_upvotes := sql_plus (issues_upvotes r) 1\<rparr>) d
        else d
      else d)"

text \<open>
  The data model's invariant on the counters: present and not negative, on every issue.
\<close>

definition counter_ok :: "int option \<Rightarrow> bool" where
  "counter_ok c = (case c of None \<Rightarrow> False | Some n \<Rightarrow> 0 \<le> n)"

definition counters_ok :: "db \<Rightarrow> bool" where
  "counters_ok d = list_all (\<lambda>r. counter_ok (issues_upvotes r) \<and> counter_ok (issues_downvotes r)) (issues d)"

text \<open>A run of trigger events, in the order the statements on \<open>issue_votes\<close> arrive.\<close>

definition vote_events :: "issue_votes_event list \<Rightarrow> db \<Rightarrow> db" where
  "vote_events evs d = foldl (\<lambda>d' ev. update_issue_counts ''issue_votes'' ev d') d evs"

section \<open>The progress form: JavaScript values\<close>

text \<open>
  The component \<open>WorkProgressTracker\<close> (lines 8 to 380). A JavaScript number is NaN, an
  infinity or a finite value; the two zeros are one here. Text is a list of 8-bit
  characters, and \<open>isWhiteSpace\<close> holds the white space and line terminators of
  ECMAScript in that range.
\<close>

datatype js_number = NaN | PosInfinity | NegInfinity | Finite real

text \<open>\<^verbatim>\<open>n || 0\<close>: NaN and zero are falsy.\<close>

definition number_truthy :: "js_number \<Rightarrow> bool" where
  "number_truthy n = (case n of NaN \<Rightarrow> False | Finite r \<Rightarrow> r \<noteq> 0 | _ \<Rightarrow> True)"

definition or_zero :: "js_number \<Rightarrow> js_number" where
  "or_zero n = (if number_truthy n then n else Finite 0)"

definition isWhiteSpace :: "char \<Rightarrow> bool" where
  "isWhiteSpace c = (c \<in> set [CHR 0x09, CHR 0x0A, CHR 0x0B, CHR 0x0C, CHR 0x0D, CHR 0x20, CHR 0xA0])"

definition trim :: "string \<Rightarrow> string" where
  "trim s = rev (dropWhile isWhiteSpace (rev (dropWhile isWhiteSpace s)))"

text \<open>\<^verbatim>\<open>text.split(',')\<close>: the pieces between separators; the empty text gives one empty piece.\<close>

fun split :: "char \<Rightarrow> string \<Rightarrow> string list" where
  "split sep [] = [[]]"
| "split sep (c # cs) =
     (if c = sep then [] # split sep cs
      else (case split sep cs of [] \<Rightarrow> [[c]] | w # ws \<Rightarrow> (c # w) # ws))"

datatype js_error = Error (message: string)

record progress_form =
  title :: string
  description :: string
  progress_percentage :: js_number
  status :: string
  materials_used :: "string list"
  labor_hours :: string
  expenses_incurred :: string
  milestone_reached :: string
  next_milestone :: string
  contractor_notes :: string

record asset =
  uri :: string

record uploaded =
  url :: string

record upload_result =
  successful :: "uploaded list"

record progress_payload =
  p_title :: string
  p_description :: string
  p_progress_percentage :: js_number
  p_status :: string
  p_materials_used :: "string list"
  p_labor_hours :: js_number
  p_expenses_incurred :: js_number
  p_milestone_reached :: string
  p_next_milestone :: string
  p_contractor_notes :: string
  p_issue_id :: "string option"
  p_tender_id :: "string option"
  p_images :: "string list"

record props =
  issueId :: "string option"
  tenderId :: "string option"
  contractorId :: "string option"

text \<open>
  What the component imports and does not define: \<open>uploadMultipleImages\<close>
  (\<^verbatim>\<open>../lib/cloudinary\<close>) and \<open>submitWorkProgress\<close> (\<^verbatim>\<open>../lib/supabase\<close>), each of which
  resolves with a value or throws, and the built-ins \<open>parseFloat\<close> and \<open>parseInt\<close>, whose
  results are floating point. They are parameters. \<open>submitWorkProgress\<close> resolves with
  the \<open>error\<close> field of its reply, \<open>None\<close> for null.
\<close>

record env =
  uploadMultipleImages :: "string list \<Rightarrow> js_error + upload_result"
  submitWorkProgress :: "progress_payload \<Rightarrow> js_error + js_error option"
  parseFloat :: "string \<Rightarrow> js_number"
  parseInt :: "string \<Rightarrow> js_number"

datatype call = UploadCall "string list" | InsertCall progress_payload

text \<open>
  Outside the component: the rows of \<open>work_progress\<close> the submissions stored, and every
  call made to the two collaborators.
\<close>

record world =
  work_progress :: "progress_payload list"
  calls :: "call list"

datatype alert = Alert string string

record ui =
  progressData :: progress_form
  selectedImages :: "asset list"
  loading :: bool
  alerts :: "alert list"
  console_errors :: "js_error list"
  onClose_calls :: nat

section \<open>The progress form: state and handlers\<close>

definition initialProgressData :: progress_form where
  "initialProgressData =
     \<lparr>title = [], description = [], progress_percentage = Finite 0,
      status = ''in_progress'', materials_used = [], labor_hours = [],
      expenses_incurred = [], milestone_reached = [], next_milestone = [],
      contractor_notes = []\<rparr>"

text \<open>
  Every write to \<open>progressData\<close>: the \<open>onChangeText\<close> and \<open>onPress\<close> handlers of the form
  (lines 211 to 356) and the reset behind the success alert's OK button (lines 114 to 125).
\<close>

datatype form_input =
    TitleText string
  | DescriptionText string
  | ProgressText string
  | StatusPress string
  | LaborHoursText string
  | ExpensesText string
  | MaterialsText string
  | MilestoneReachedText string
  | NextMilestoneText string
  | ContractorNotesText string
  | SuccessOK

fun setProgressData :: "env \<Rightarrow> progress_form \<Rightarrow> form_input \<Rightarrow> progress_form" where
  "setProgressData e pd (TitleText t) = pd\<lparr>title := t\<rparr>"
| "setProgressData e pd (DescriptionText t) = pd\<lparr>description := t\<rparr>"
| "setProgressData e pd (ProgressText t) = pd\<lparr>progress_percentage := or_zero (parseInt e t)\<rparr>"
| "setProgressData e pd (StatusPress st) = pd\<lparr>status := st\<rparr>"
| "setProgressData e pd (LaborHoursText t) = pd\<lparr>labor_hours := t\<rparr>"
| "setProgressData e pd (ExpensesText t) = pd\<lparr>expenses_incurred := t\<rparr>"
| "setProgressData e pd (MaterialsText t) =
     pd\<lparr>materials_used := filter (\<lambda>m. m \<noteq> []) (map trim (split CHR '','' t))\<rparr>"
| "setProgressData e pd (MilestoneReachedText t) = pd\<lparr>milestone_reached := t\<rparr>"
| "setProgressData e pd (NextMilestoneText t) = pd\<lparr>next_milestone := t\<rparr>"
| "setProgressData e pd (ContractorNotesText t) = pd\<lparr>contractor_notes := t\<rparr>"
| "setProgressData e pd SuccessOK = initialProgressData"

definition form_after :: "env \<Rightarrow> form_input list \<Rightarrow> progress_form" where
  "form_after e inputs = foldl (setProgressData e) initialProgressData inputs"

text \<open>The OK button of the success alert (lines 114 to 129): the reset, then \<open>onClose\<close>.\<close>

definition successOK :: "ui \<Rightarrow> ui" where
  "successOK u = u\<lparr>progressData := initialProgressData, selectedImages := [],
                   onClose_calls := Suc (onClose_calls u)\<rparr>"

section \<open>The progress form: \<open>handleSubmit\<close>\<close>

text \<open>Lines 84 to 93: the upload step. It makes a call only when images are selected.\<close>

definition uploadImages :: "env \<Rightarrow> asset list \<Rightarrow> world \<Rightarrow> (js_error + string list) \<times> world" where
  "uploadImages e imgs w =
     (if length imgs > 0 then
        (let imageUris = map uri imgs;
             w1 = w\<lparr>calls := calls w @ [UploadCall imageUris]\<rparr>
         in case uploadMultipleImages e imageUris of
              Inl err \<Rightarrow> (Inl err, w1)
            | Inr uploadResult \<Rightarrow>
                (Inr (if length (successful uploadResult) > 0
                      then map url (successful uploadResult) else []), w1))
      else (Inr [], w))"

text \<open>Lines 95 to 103: the object literal.\<close>

definition progressPayload :: "env \<Rightarrow> props \<Rightarrow> string list \<Rightarrow> progress_form \<Rightarrow> progress_payload" where
  "progressPayload e pr imageUrls pd =
     \<lparr>p_title = title pd,
      p_description = description pd,
      p_progress_percentage = progress_percentage pd,
      p_status = status pd,
      p_materials_used = filter (\<lambda>m. trim m \<noteq> []) (materials_used pd),
      p_labor_hours = or_zero (parseFloat e (labor_hours pd)),
      p_expenses_incurred = or_zero (parseFloat e (expenses_incurred pd)),
      p_milestone_reached = milestone_reached pd,
      p_next_milestone = next_milestone pd,
      p_contractor_notes = contractor_notes pd,
      p_issue_id = issueId pr,
      p_tender_id = tenderId pr,
      p_images = imageUrls\<rparr>"

text \<open>
  Modelled from the spec: the effect of \<open>submitWorkProgress\<close> on the table, which is not
  in the sources. The insert is a single atomic call: the payload becomes one row of
  \<open>work_progress\<close> exactly when the call resolves with no error, and no row otherwise.
\<close>

definition persist :: "env \<Rightarrow> progress_payload \<Rightarrow> world \<Rightarrow> (js_error + js_error option) \<times> world" where
  "persist e payload w =
     (let w1 = w\<lparr>calls := calls w @ [InsertCall payload]\<rparr>
      in case submitWorkProgress e payload of
           Inr None \<Rightarrow> (Inr None, w1\<lparr>work_progress := work_progress w1 @ [payload]\<rparr>)
         | r \<Rightarrow> (r, w1))"

text \<open>Lines 133 to 138: the catch block, then the finally block.\<close>

definition catch_error :: "js_error \<Rightarrow> ui \<Rightarrow> ui" where
  "catch_error err u =
     u\<lparr>console_errors := console_errors u @ [err],
       alerts := alerts u @ [Alert ''Error'' (''Failed to submit progress: '' @ message err)],
       loading := False\<rparr>"

text \<open>Lines 75 to 139.\<close>

definition handleSubmit :: "env \<Rightarrow> props \<Rightarrow> ui \<times> world \<Rightarrow> ui \<times> world" where
  "handleSubmit e pr uw =
     (case uw of (u, w) \<Rightarrow>
        if title (progressData u) = [] \<or> description (progressData u) = [] then
          (u\<lparr>alerts := alerts u @ [Alert ''Error'' ''Please fill in title and description'']\<rparr>, w)
        else
          (case uploadImages e (selectedImages u) w of
             (Inl err, w1) \<Rightarrow> (catch_error err u, w1)
           | (Inr imageUrls, w1) \<Rightarrow>
               (case persist e (progressPayload e pr imageUrls (progressData u)) w1 of
                  (Inl err, w2) \<Rightarrow> (catch_error err u, w2)
                | (Inr (Some err), w2) \<Rightarrow> (catch_error err u, w2)
                | (Inr None, w2) \<Rightarrow>
                    (u\<lparr>alerts := alerts u @
                         [Alert ''Success'' ''Work progress has been submitted successfully''],
                       loading := False\<rparr>, w2))))"

text \<open>What the handlers keep true of \<open>materials_used\<close>: every entry is trimmed and not empty.\<close>

definition trimmed_entries :: "progress_form \<Rightarrow> bool" where
  "trimmed_entries pd = list_all (\<lambda>m. trim m = m \<and> m \<noteq> []) (materials_used pd)"

section \<open>Sample rows\<close>

text \<open>
  One of the sample areas of lines 900 to 905, a department admin and a contractor, an
  issue reported in that area, and a tender for it.
\<close>

definition sample_area :: areas_row where
  "sample_area = \<lparr>areas_id = 1, areas_name = ''Central Business District'',
                   areas_is_active = Some True\<rparr>"

definition sample_admin :: profiles_row where
  "sample_admin = \<lparr>profiles_id = 7, profiles_user_type = Some ''department_admin'',
                    profiles_is_verified = Some True, profiles_assigned_area_id = None\<rparr>"

definition sample_contractor :: profiles_row where
  "sample_contractor = \<lparr>profiles_id = 8, profiles_user_type = Some ''tender'',
                         profiles_is_verified = Some True, profiles_assigned_area_id = None\<rparr>"

definition sample_issue :: issues_row where
  "sample_issue = \<lparr>issues_id = 10, issues_area = Some ''Central Business District'',
                    issues_status = Some ''pending'', issues_workflow_stage = Some ''reported'',
                    issues_assigned_area_id = None, issues_current_assignee_id = None,
                    issues_upvotes = Some 0, issues_downvotes = Some 0,
                    issues_updated_at = None\<rparr>"

definition sample_db :: db where
  "sample_db = \<lparr>areas = [sample_area], profiles = [sample_admin, sample_contractor],
                 issues = [], issue_assignments = []\<rparr>"

definition sample_db_with_issue :: db where
  "sample_db_with_issue =
     sample_db\<lparr>issues := [sample_issue\<lparr>issues_workflow_stage := Some ''area_review''\<rparr>]\<rparr>"

definition sample_session :: session where
  "sample_session = \<lparr>auth_uid = Some 7, now = 1000, gen_random_uuid = 30\<rparr>"

definition sample_tender :: tenders_row where
  "sample_tender = \<lparr>tenders_id = 20, tenders_status = Some ''open'',
                     tenders_awarded_to = Some 8, tenders_source_issue_id = Some 10\<rparr>"

definition sample_vote :: issue_votes_row where
  "sample_vote = \<lparr>issue_votes_issue_id = Some 10, issue_votes_vote_type = Some ''upvote''\<rparr>"

definition sample_tender_awarded :: tenders_row where
  "sample_tender_awarded = sample_tender\<lparr>tenders_status := Some ''awarded''\<rparr>"

definition sample_tender_no_issue :: tenders_row where
  "sample_tender_no_issue = sample_tender\<lparr>tenders_source_issue_id := None\<rparr>"

definition sample_db_awarded :: db where
  "sample_db_awarded =
     sample_db\<lparr>issues :=
                 [sample_issue\<lparr>issues_workflow_stage := Some ''contractor_assigned'',
                               issues_status := Some ''in_progress'',
                               issues_current_assignee_id := Some 8,
                               issues_updated_at := Some 1000\<rparr>],
               issue_assignments :=
                 [\<lparr>ia_id = 30, ia_issue_id = Some 10, ia_assigned_by = Some 7,
                   ia_assigned_to = Some 8, ia_assigned_department_id = None,
                   ia_assigned_area_id = None,
                   ia_assignment_type = Some ''department_to_contractor'',
                   ia_assignment_notes = Some ''Tender awarded - contractor assigned'',
                   ia_status = Some ''active'', ia_due_date = None, ia_completed_at = None,
                   ia_created_at = Some 1000, ia_updated_at = Some 1000\<rparr>]\<rparr>"

text \<open>
  A filled form with two selected images, and collaborators for it: an upload in which
  the second image fails, an insert that is accepted, and the values the two built-ins
  give on the texts of the sample.
\<close>

definition sample_form :: progress_form where
  "sample_form =
     \<lparr>title = ''Road patched'', description = ''Filled the pothole'',
      progress_percentage = Finite 40, status = ''in_progress'',
      materials_used = [''asphalt'', ''gravel''], labor_hours = ''2.5'',
      expenses_incurred = ''abc'', milestone_reached = [], next_milestone = [],
      contractor_notes = []\<rparr>"

definition sample_inputs :: "form_input list" where
  "sample_inputs =
     [TitleText ''Road patched'', DescriptionText ''Filled the pothole'',
      ProgressText ''40'', MaterialsText '' asphalt, ,gravel '',
      LaborHoursText ''2.5'', ExpensesText ''abc'']"

definition sample_ui :: ui where
  "sample_ui =
     \<lparr>progressData = sample_form,
      selectedImages = [\<lparr>uri = ''file:///a.jpg''\<rparr>, \<lparr>uri = ''file:///b.jpg''\<rparr>],
      loading = False, alerts = [], console_errors = [], onClose_calls = 0\<rparr>"

definition sample_props :: props where
  "sample_props = \<lparr>issueId = Some ''10'', tenderId = None, contractorId = Some ''8''\<rparr>"

definition sample_world :: world where
  "sample_world = \<lparr>work_progress = [], calls = []\<rparr>"

definition sample_numbers :: "string \<Rightarrow> js_number" where
  "sample_numbers s = (if s = ''2.5'' then Finite (5 / 2) else if s = ''40'' then Finite 40 else NaN)"

definition sample_env :: env where
  "sample_env =
     \<lparr>uploadMultipleImages =
        (\<lambda>uris. Inr \<lparr>successful = map (\<lambda>u. \<lparr>url = ''https://cdn/'' @ u\<rparr>)
                                      (filter (\<lambda>u. u \<noteq> ''file:///b.jpg'') uris)\<rparr>),
      submitWorkProgress = (\<lambda>p. Inr None),
      parseFloat = sample_numbers,
      parseInt = sample_numbers\<rparr>"

definition sample_payload :: progress_payload where
  "sample_payload =
     \<lparr>p_title = ''Road patched'', p_description = ''Filled the pothole'',
      p_progress_percentage = Finite 40, p_status = ''in_progress'',
      p_materials_used = [''asphalt'', ''gravel''], p_labor_hours = Finite (5 / 2),
      p_expenses_incurred = Finite 0, p_milestone_reached = [], p_next_milestone = [],
      p_contractor_notes = [], p_issue_id = Some ''10'', p_tender_id = None,
      p_images = [''https://cdn/file:///a.jpg'']\<rparr>"

definition rejecting_env :: env where
  "rejecting_env =
     sample_env\<lparr>submitWorkProgress :=
       (\<lambda>p. Inr (Some (Error ''new row violates row-level security policy'')))\<rparr>"

definition offline_env :: env where
  "offline_env =
     sample_env\<lparr>uploadMultipleImages := (\<lambda>uris. Inl (Error ''Network request failed''))\<rparr>"

section \<open>Facts about the tables\<close>

lemmas sample_defs = sample_area_def sample_admin_def sample_contractor_def sample_issue_def
  sample_db_def sample_db_with_issue_def sample_session_def sample_tender_def sample_vote_def
  sample_tender_awarded_def sample_tender_no_issue_def sample_db_awarded_def

lemmas sql_defs = sql_eq_def sql_neq_def sql_and_def is_true_def sql_in_def check_passes_def

lemma update_issues_unchanged:
  assumes "\<And>r. r \<in> set (issues d) \<Longrightarrow> issues_where_id k r \<Longrightarrow> f r = r"
  shows "update_issues k f d = d"
  using assms by (cases d) (auto simp: update_issues_def intro!: map_idI)

lemma update_issues_twice:
  assumes "\<And>r. issues_id (g r) = issues_id r"
  shows "update_issues k f (update_issues k g d) = update_issues k (\<lambda>r. f (g r)) d"
  using assms by (simp add: update_issues_def issues_where_id_def)

lemma update_issues_frame:
  "areas (update_issues k f d) = areas d"
  "profiles (update_issues k f d) = profiles d"
  "issue_assignments (update_issues k f d) = issue_assignments d"
  by (simp_all add: update_issues_def)

lemma update_issues_ids:
  assumes "\<And>r. issues_id (f r) = issues_id r"
  shows "map issues_id (issues (update_issues k f d)) = map issues_id (issues d)"
  using assms by (simp add: update_issues_def comp_def)

lemma update_issues_hit:
  assumes "r \<in> set (issues (update_issues (Some i) f d))" "issues_id r = i"
    and "\<And>r. issues_id (f r) = issues_id r"
  shows "\<exists>r0 \<in> set (issues d). r = f r0"
  using assms
  by (auto simp: update_issues_def issues_where_id_def sql_eq_def is_true_def split: if_splits)

subsection \<open>Issue creation\<close>

lemma auto_assign_row:
  "snd (auto_assign_issue_to_area d N) = N\<lparr>issues_workflow_stage := Some ''area_review''\<rparr>"
  by (simp add: auto_assign_issue_to_area_def Let_def)

lemma auto_assign_ids:
  "map issues_id (issues (fst (auto_assign_issue_to_area d N))) = map issues_id (issues d)"
  by (simp add: auto_assign_issue_to_area_def Let_def comp_def)

text \<open>The trigger's UPDATE finds no row when the new key is not yet in the table.\<close>

lemma auto_assign_fresh:
  assumes "issues_id N \<notin> set (map issues_id (issues d))"
  shows "fst (auto_assign_issue_to_area d N) = d"
proof -
  have "map (\<lambda>r. if issues_id r = issues_id N then f r else r) (issues d) = issues d" for f
  proof (intro map_idI)
    fix x assume "x \<in> set (issues d)"
    then have "issues_id x \<in> set (map issues_id (issues d))" by simp
    with assms have "issues_id x \<noteq> issues_id N" by auto
    then show "(if issues_id x = issues_id N then f x else x) = x" by simp
  qed
  then show ?thesis
    by (cases d) (simp add: auto_assign_issue_to_area_def Let_def)
qed

text \<open>
  An accepted INSERT stores the given row with \<open>workflow_stage\<close> overwritten and every
  other column as given; the rows already there are untouched.
\<close>

lemma insert_issue_stored_row:
  assumes "insert_issue d NEW = Inr d'"
  shows "d' = d\<lparr>issues := issues d @ [NEW\<lparr>issues_workflow_stage := Some ''area_review''\<rparr>]\<rparr>"
proof -
  obtain d1 N1 where a: "auto_assign_issue_to_area d NEW = (d1, N1)"
    by (cases "auto_assign_issue_to_area d NEW")
  have row: "N1 = NEW\<lparr>issues_workflow_stage := Some ''area_review''\<rparr>"
    using auto_assign_row [of d NEW] a by simp
  have ids: "map issues_id (issues d1) = map issues_id (issues d)"
    using auto_assign_ids [of d NEW] a by simp
  from assms a have fresh: "issues_id N1 \<notin> set (map issues_id (issues d1))"
    and d': "d' = d1\<lparr>issues := issues d1 @ [N1]\<rparr>"
    by (auto simp: insert_issue_def split: if_splits)
  from fresh ids row have "issues_id NEW \<notin> set (map issues_id (issues d))" by simp
  then have "d1 = d" using auto_assign_fresh [of NEW d] a by simp
  with d' row show ?thesis by simp
qed

text \<open>
  Claim C1: an issue inserted with an area that names an active Area, with no verified
  area super admin bound to it, has after the insert that Area's id as
  \<open>assigned_area_id\<close> and a null \<open>current_assignee_id\<close>.
  The trigger does not do this. Its UPDATE addresses the row by \<open>NEW.id\<close> before the row
  is in the table, so it finds nothing, and \<open>assigned_area_id\<close> stays as supplied. At the
  sample issue, whose area is the active sample area (id 1) and which no admin covers, the
  subquery does select id 1, the insert is accepted, and the stored row has a null
  \<open>assigned_area_id\<close>.
\<close>

theorem auto_assign_leaves_assigned_area_null:
  "select_area_id sample_db (issues_area sample_issue) = Some 1
   \<and> select_area_admin_id sample_db (issues_area sample_issue) = None
   \<and> insert_issue sample_db sample_issue = Inr sample_db_with_issue
   \<and> map issues_id (issues sample_db_with_issue) = [issues_id sample_issue]
   \<and> map issues_assigned_area_id (issues sample_db_with_issue) = [None]
   \<and> map issues_current_assignee_id (issues sample_db_with_issue) = [None]"
  by (simp add: sample_defs sql_defs select_area_id_def select_area_admin_id_def
      insert_issue_def auto_assign_issue_to_area_def workflow_stages_def
      references_areas_def references_profiles_def Let_def)

text \<open>
  Claim C8: whatever fields a new issue supplies, the row an accepted INSERT stores has
  \<open>workflow_stage = 'area_review'\<close>. The stored row is the last of the table and has the
  key of the given one.
\<close>

theorem new_issue_workflow_stage_area_review:
  assumes "insert_issue d NEW = Inr d'"
  shows "\<exists>row. issues d' = issues d @ [row]
           \<and> issues_id row = issues_id NEW
           \<and> issues_workflow_stage row = Some ''area_review''"
  using insert_issue_stored_row [OF assms] by simp

theorem new_issue_workflow_stage_area_review_witness:
  "insert_issue sample_db (sample_issue\<lparr>issues_workflow_stage := Some ''resolved''\<rparr>)
     = Inr sample_db_with_issue
   \<and> map issues_workflow_stage (issues sample_db_with_issue) = [Some ''area_review'']"
proof -
  have h: "insert_issue sample_db (sample_issue\<lparr>issues_workflow_stage := Some ''resolved''\<rparr>)
             = Inr sample_db_with_issue"
    by (simp add: sample_defs sql_defs insert_issue_def auto_assign_issue_to_area_def
        workflow_stages_def references_areas_def references_profiles_def Let_def)
  from new_issue_workflow_stage_area_review [OF h]
  obtain row where "issues sample_db_with_issue = issues sample_db @ [row]"
    and "issues_workflow_stage row = Some ''area_review''" by blast
  then have "map issues_workflow_stage (issues sample_db_with_issue) = [Some ''area_review'']"
    by (simp add: sample_db_def)
  with h show ?thesis by simp
qed

subsection \<open>Tender award\<close>

lemma privileged_caller:
  assumes "list_ex (\<lambda>p. profiles_id p = u \<and>
          profiles_user_type p \<in> {Some ''admin'', Some ''area_super_admin'', Some ''department_admin''})
        ps"
  shows "list_ex (\<lambda>p. is_true (sql_and (sql_eq (Some (profiles_id p)) (Some u))
                                (sql_in (profiles_user_type p)
                                   [''admin'', ''area_super_admin'', ''department_admin''])))
                      ps"
proof -
  from assms obtain p where p: "p \<in> set ps" "profiles_id p = u"
    "profiles_user_type p \<in> {Some ''admin'', Some ''area_super_admin'', Some ''department_admin''}"
    unfolding list_ex_iff by blast
  from p(3) have "sql_in (profiles_user_type p) [''admin'', ''area_super_admin'', ''department_admin'']
                    = Some True"
    unfolding sql_in_def by auto
  with p(2) have "is_true (sql_and (sql_eq (Some (profiles_id p)) (Some u))
                                (sql_in (profiles_user_type p)
                                   [''admin'', ''area_super_admin'', ''department_admin'']))"
    by (simp add: sql_eq_def sql_and_def is_true_def)
  with p(1) show ?thesis unfolding list_ex_iff by blast
qed

text \<open>When the table accepts the row the award trigger builds.\<close>

lemma award_insert_accepted:
  assumes src: "tenders_source_issue_id NEW = Some i" "i \<in> set (map issues_id (issues d))"
    and caller: "auth_uid s = Some u"
      "list_ex (\<lambda>p. profiles_id p = u \<and>
          profiles_user_type p \<in> {Some ''admin'', Some ''area_super_admin'', Some ''department_admin''})
        (profiles d)"
    and contractor: "references_profiles d (tenders_awarded_to NEW)"
  shows "insert_issue_assignment s d (award_assignment s NEW)
         = Inr (d\<lparr>issue_assignments := issue_assignments d @ [award_assignment s NEW]\<rparr>)"
proof -
  have policy: "is_true (admins_can_create_assignments s d (award_assignment s NEW))"
    using privileged_caller [OF caller(2)] caller(1)
    by (simp add: admins_can_create_assignments_def award_assignment_def
        sql_eq_def sql_and_def is_true_def)
  have u_prof: "references_profiles d (Some u)"
    using caller(2) by (auto simp: list_ex_iff references_profiles_def)
  have i_issue: "references_issues d (Some i)"
    using src(2) by (simp add: references_issues_def)
  have cols: "ia_issue_id (award_assignment s NEW) = Some i"
    "ia_assigned_by (award_assignment s NEW) = Some u"
    "ia_assigned_to (award_assignment s NEW) = tenders_awarded_to NEW"
    "ia_assignment_type (award_assignment s NEW) = Some ''department_to_contractor''"
    "ia_status (award_assignment s NEW) = Some ''active''"
    using src(1) caller(1) by (simp_all add: award_assignment_def)
  show ?thesis
    unfolding insert_issue_assignment_def
    using policy u_prof i_issue contractor
    by (simp add: cols check_passes_def sql_in_def)
qed

text \<open>
  Claim C2, as amended: a tender update whose status goes from a non-null value other
  than \<open>awarded\<close> to \<open>awarded\<close>, for a tender whose source issue exists and whose
  \<open>awarded_to\<close> is null or a profile, made by an authenticated caller whose profile is an
  admin, an area super admin or a department admin, succeeds; every row of the source
  issue then has \<open>workflow_stage = 'contractor_assigned'\<close>, \<open>status = 'in_progress'\<close> and
  the tender's \<open>awarded_to\<close> as \<open>current_assignee_id\<close>, no issue is added or removed, and
  exactly one row is appended to \<open>issue_assignments\<close>: for that issue, from the caller to
  \<open>awarded_to\<close>, of type \<open>department_to_contractor\<close> and status \<open>active\<close>.
\<close>

theorem tender_award_assigns_contractor:
  assumes old: "tenders_status OLD = Some st" "st \<noteq> ''awarded''"
    and new: "tenders_status NEW = Some ''awarded''"
    and src: "tenders_source_issue_id NEW = Some i" "i \<in> set (map issues_id (issues d))"
    and caller: "auth_uid s = Some u"
      "list_ex (\<lambda>p. profiles_id p = u \<and>
          profiles_user_type p \<in> {Some ''admin'', Some ''area_super_admin'', Some ''department_admin''})
        (profiles d)"
    and contractor: "references_profiles d (tenders_awarded_to NEW)"
  shows "\<exists>d'. handle_tender_award s OLD NEW d = Inr d'
     \<and> map issues_id (issues d') = map issues_id (issues d)
     \<and> (\<forall>r \<in> set (issues d'). issues_id r = i \<longrightarrow>
           issues_workflow_stage r = Some ''contractor_assigned''
         \<and> issues_status r = Some ''in_progress''
         \<and> issues_current_assignee_id r = tenders_awarded_to NEW)
     \<and> (\<exists>row. issue_assignments d' = issue_assignments d @ [row]
           \<and> ia_issue_id row = Some i
           \<and> ia_assigned_by row = Some u
           \<and> ia_assigned_to row = tenders_awarded_to NEW
           \<and> ia_assignment_type row = Some ''department_to_contractor''
           \<and> ia_status row = Some ''active'')"
proof -
  define f where "f = (\<lambda>r::issues_row. r\<lparr>issues_workflow_stage := Some ''contractor_assigned'',
                    issues_status := Some ''in_progress'',
                    issues_current_assignee_id := tenders_awarded_to NEW,
                    issues_updated_at := Some (now s)\<rparr>)"
  define d1 where "d1 = update_issues (tenders_source_issue_id NEW) f d"
  define row where "row = award_assignment s NEW"
  have f_id: "issues_id (f r) = issues_id r" for r by (simp add: f_def)
  have guard: "is_true (sql_and (sql_eq (tenders_status NEW) (Some ''awarded''))
                          (sql_neq (tenders_status OLD) (Some ''awarded'')))"
    using old new by (simp add: sql_eq_def sql_neq_def sql_and_def is_true_def)
  have ids: "map issues_id (issues d1) = map issues_id (issues d)"
    unfolding d1_def by (rule update_issues_ids) (rule f_id)
  have profs: "profiles d1 = profiles d" and asg: "issue_assignments d1 = issue_assignments d"
    unfolding d1_def by (rule update_issues_frame)+
  have ins: "insert_issue_assignment s d1 row
             = Inr (d1\<lparr>issue_assignments := issue_assignments d1 @ [row]\<rparr>)"
    unfolding row_def
  proof (rule award_insert_accepted [OF src(1) _ caller(1)])
    show "i \<in> set (map issues_id (issues d1))" using src(2) ids by simp
    show "list_ex (\<lambda>p. profiles_id p = u \<and>
          profiles_user_type p \<in> {Some ''admin'', Some ''area_super_admin'', Some ''department_admin''})
        (profiles d1)" using caller(2) profs by simp
    show "references_profiles d1 (tenders_awarded_to NEW)"
      using contractor unfolding references_profiles_def profs .
  qed
  have run: "handle_tender_award s OLD NEW d
             = Inr (d1\<lparr>issue_assignments := issue_assignments d1 @ [row]\<rparr>)"
    unfolding handle_tender_award_def using guard contractor ins
    by (simp add: d1_def f_def row_def)
  have rows: "issues_workflow_stage r = Some ''contractor_assigned''
         \<and> issues_status r = Some ''in_progress''
         \<and> issues_current_assignee_id r = tenders_awarded_to NEW"
    if "r \<in> set (issues d1)" "issues_id r = i" for r
  proof -
    from that obtain r0 where "r = f r0"
      using update_issues_hit [of r i f d] f_id unfolding d1_def src(1) by blast
    then show ?thesis by (simp add: f_def)
  qed
  have cols: "ia_issue_id row = Some i" "ia_assigned_by row = Some u"
    "ia_assigned_to row = tenders_awarded_to NEW"
    "ia_assignment_type row = Some ''department_to_contractor''"
    "ia_status row = Some ''active''"
    using src(1) caller(1) by (simp_all add: row_def award_assignment_def)
  show ?thesis
  proof (intro exI conjI)
    show "handle_tender_award s OLD NEW d
          = Inr (d1\<lparr>issue_assignments := issue_assignments d1 @ [row]\<rparr>)"
      by (rule run)
    show "map issues_id (issues (d1\<lparr>issue_assignments := issue_assignments d1 @ [row]\<rparr>))
          = map issues_id (issues d)"
      using ids by simp
    show "\<forall>r \<in> set (issues (d1\<lparr>issue_assignments := issue_assignments d1 @ [row]\<rparr>)).
            issues_id r = i \<longrightarrow>
              issues_workflow_stage r = Some ''contractor_assigned''
            \<and> issues_status r = Some ''in_progress''
            \<and> issues_current_assignee_id r = tenders_awarded_to NEW"
      using rows by simp
    show "issue_assignments (d1\<lparr>issue_assignments := issue_assignments d1 @ [row]\<rparr>)
          = issue_assignments d @ [row]"
      using asg by simp
  qed (rule cols)+
qed

theorem tender_award_assigns_contractor_witness:
  "tenders_status sample_tender = Some ''open''
   \<and> tenders_status sample_tender_awarded = Some ''awarded''
   \<and> tenders_source_issue_id sample_tender_awarded = Some 10
   \<and> auth_uid sample_session = Some 7
   \<and> handle_tender_award sample_session sample_tender sample_tender_awarded sample_db_with_issue
       = Inr sample_db_awarded
   \<and> map issues_workflow_stage (issues sample_db_awarded) = [Some ''contractor_assigned'']
   \<and> length (issue_assignments sample_db_awarded) = length (issue_assignments sample_db_with_issue) + 1"
proof -
  have old: "tenders_status sample_tender = Some ''open''" "''open'' \<noteq> ''awarded''"
    by (simp_all add: sample_defs)
  have new: "tenders_status sample_tender_awarded = Some ''awarded''"
    by (simp add: sample_defs)
  have src: "tenders_source_issue_id sample_tender_awarded = Some 10"
    "10 \<in> set (map issues_id (issues sample_db_with_issue))"
    by (simp_all add: sample_defs)
  have caller: "auth_uid sample_session = Some 7"
    "list_ex (\<lambda>p. profiles_id p = 7 \<and>
          profiles_user_type p \<in> {Some ''admin'', Some ''area_super_admin'', Some ''department_admin''})
        (profiles sample_db_with_issue)"
    by (simp_all add: sample_defs)
  have contractor: "references_profiles sample_db_with_issue (tenders_awarded_to sample_tender_awarded)"
    by (simp add: sample_defs references_profiles_def)
  from tender_award_assigns_contractor [OF old new src caller contractor]
  obtain d' where run: "handle_tender_award sample_session sample_tender sample_tender_awarded
                          sample_db_with_issue = Inr d'"
    by blast
  have "handle_tender_award sample_session sample_tender sample_tender_awarded sample_db_with_issue
          = Inr sample_db_awarded"
    by (simp add: sample_defs sql_defs handle_tender_award_def issues_where_id_def
        references_profiles_def references_issues_def insert_issue_assignment_def
        admins_can_create_assignments_def award_assignment_def update_issues_def)
  with run old new src caller show ?thesis
    by (simp add: sample_defs)
qed

text \<open>
  Claim C2 as stated, for every such update, fails where the tender has no source issue:
  \<open>source_issue_id\<close> is a nullable column (line 805), \<open>issue_assignments.issue_id\<close> is
  NOT NULL (line 667), and the trigger's INSERT raises, which aborts the update: the
  tender is not awarded and no assignment row is inserted.
\<close>

theorem tender_award_without_source_issue_raises:
  "tenders_status sample_tender_no_issue = Some ''open''
   \<and> tenders_status (sample_tender_no_issue\<lparr>tenders_status := Some ''awarded''\<rparr>) = Some ''awarded''
   \<and> handle_tender_award sample_session sample_tender_no_issue
        (sample_tender_no_issue\<lparr>tenders_status := Some ''awarded''\<rparr>) sample_db_with_issue
      = Inl (not_null_violation ''issue_id'')"
  by (simp add: sample_defs sql_defs handle_tender_award_def issues_where_id_def
      references_profiles_def insert_issue_assignment_def admins_can_create_assignments_def
      award_assignment_def update_issues_def)

text \<open>
  Claim C3: a tender update whose old status is already \<open>awarded\<close> updates no issue and
  inserts no assignment row: the trigger leaves the database as it is.
\<close>

theorem resaving_awarded_tender_is_noop:
  assumes "tenders_status OLD = Some ''awarded''"
  shows "handle_tender_award s OLD NEW d = Inr d"
proof -
  have "sql_neq (tenders_status OLD) (Some ''awarded'') = Some False"
    using assms by (simp add: sql_neq_def)
  then have "\<not> is_true (sql_and (sql_eq (tenders_status NEW) (Some ''awarded''))
                              (sql_neq (tenders_status OLD) (Some ''awarded'')))"
    by (simp add: sql_and_def is_true_def)
  then show ?thesis by (simp add: handle_tender_award_def)
qed

theorem resaving_awarded_tender_is_noop_witness:
  "tenders_status sample_tender_awarded = Some ''awarded''
   \<and> handle_tender_award sample_session sample_tender_awarded
        (sample_tender_awarded\<lparr>tenders_awarded_to := Some 7\<rparr>) sample_db_awarded
      = Inr sample_db_awarded"
proof -
  have h: "tenders_status sample_tender_awarded = Some ''awarded''"
    by (simp add: sample_defs)
  show ?thesis
    using h resaving_awarded_tender_is_noop [OF h, of sample_session
        "sample_tender_awarded\<lparr>tenders_awarded_to := Some 7\<rparr>" sample_db_awarded]
    by simp
qed

subsection \<open>Vote counters\<close>

lemma restore_counter:
  "counter_ok c \<Longrightarrow> sql_greatest (sql_plus (sql_plus c 1) (- 1)) 0 = c"
  by (auto simp: counter_ok_def sql_plus_def sql_greatest_def split: option.splits)

lemma counter_ok_plus: "counter_ok c \<Longrightarrow> counter_ok (sql_plus c 1)"
  by (auto simp: counter_ok_def sql_plus_def split: option.splits)

lemma counter_ok_greatest: "counter_ok (sql_greatest c 0)"
  by (auto simp: counter_ok_def sql_greatest_def split: option.splits)

lemma counters_ok_update_issues:
  assumes "counters_ok d"
    and "\<And>r. counter_ok (issues_upvotes r) \<Longrightarrow> counter_ok (issues_downvotes r) \<Longrightarrow>
           counter_ok (issues_upvotes (f r)) \<and> counter_ok (issues_downvotes (f r))"
  shows "counters_ok (update_issues k f d)"
  using assms by (auto simp: counters_ok_def update_issues_def list_all_iff)

text \<open>Each trigger event keeps the counters present and not negative.\<close>

lemma counters_ok_step:
  assumes "counters_ok d"
  shows "counters_ok (update_issue_counts tn ev d)"
  using assms
  by (cases ev) (auto intro!: counters_ok_update_issues simp: counter_ok_plus counter_ok_greatest)

lemma counters_ok_events: "counters_ok d \<Longrightarrow> counters_ok (vote_events evs d)"
  unfolding vote_events_def
  by (induction evs arbitrary: d) (simp_all add: counters_ok_step)

lemma insert_then_delete:
  assumes "counters_ok d"
  shows "update_issue_counts tn (TG_DELETE v) (update_issue_counts tn (TG_INSERT v) d) = d"
  using assms
  by (auto simp: update_issues_twice restore_counter counters_ok_def list_all_iff
      intro!: update_issues_unchanged)

text \<open>
  Claim C4: when a vote is inserted on an issue and then deleted, the issue's counters
  are back at their values before the insert, and no counter is negative in between.
  The counters start as the data model has them, present and not negative; then the
  DELETE event undoes the INSERT event on the whole table, the state in between keeps
  the counters not negative, and so does every state any sequence of vote events leads to.
\<close>

theorem vote_insert_then_delete_restores_counters:
  assumes "counters_ok d"
  shows "update_issue_counts tn (TG_DELETE v) (update_issue_counts tn (TG_INSERT v) d) = d
       \<and> counters_ok (update_issue_counts tn (TG_INSERT v) d)
       \<and> counters_ok (vote_events evs d)"
  using assms insert_then_delete counters_ok_step counters_ok_events by blast

theorem vote_insert_then_delete_restores_counters_witness:
  "counters_ok sample_db_with_issue
   \<and> map issues_upvotes
        (issues (update_issue_counts ''issue_votes'' (TG_INSERT sample_vote) sample_db_with_issue))
      = [Some 1]
   \<and> update_issue_counts ''issue_votes'' (TG_DELETE sample_vote)
        (update_issue_counts ''issue_votes'' (TG_INSERT sample_vote) sample_db_with_issue)
      = sample_db_with_issue
   \<and> map issues_upvotes
        (issues (vote_events [TG_DELETE sample_vote, TG_DELETE sample_vote] sample_db_with_issue))
      = [Some 0]
   \<and> counters_ok (vote_events [TG_DELETE sample_vote, TG_DELETE sample_vote] sample_db_with_issue)"
proof -
  have h: "counters_ok sample_db_with_issue"
    by (simp add: sample_defs counters_ok_def counter_ok_def)
  have mid: "map issues_upvotes
        (issues (update_issue_counts ''issue_votes'' (TG_INSERT sample_vote) sample_db_with_issue))
      = [Some 1]"
    by (simp add: sample_defs vote_type_is_def update_issues_def issues_where_id_def
        sql_defs sql_plus_def)
  have floor: "map issues_upvotes
        (issues (vote_events [TG_DELETE sample_vote, TG_DELETE sample_vote] sample_db_with_issue))
      = [Some 0]"
    by (simp add: vote_events_def sample_defs vote_type_is_def update_issues_def
        issues_where_id_def sql_defs sql_plus_def sql_greatest_def)
  show ?thesis
    using h mid floor
      vote_insert_then_delete_restores_counters [OF h, of "''issue_votes''" sample_vote
        "[TG_DELETE sample_vote, TG_DELETE sample_vote]"]
    by simp
qed

text \<open>
  Claim C10: an UPDATE of a vote that keeps its type leaves the upvote and downvote
  counters of every issue as they are.
\<close>

theorem vote_update_same_type_keeps_counters:
  assumes "issue_votes_vote_type OLD = issue_votes_vote_type NEW"
  shows "update_issue_counts tn (TG_UPDATE OLD NEW) d = d"
proof -
  have "\<not> (vote_type_is OLD ''upvote'' \<and> vote_type_is NEW ''downvote'')"
    and "\<not> (vote_type_is OLD ''downvote'' \<and> vote_type_is NEW ''upvote'')"
    using assms by (auto simp: vote_type_is_def sql_eq_def is_true_def split: option.splits)
  then show ?thesis by auto
qed

theorem vote_update_same_type_keeps_counters_witness:
  "issue_votes_vote_type sample_vote
     = issue_votes_vote_type (sample_vote\<lparr>issue_votes_issue_id := Some 11\<rparr>)
   \<and> update_issue_counts ''issue_votes''
        (TG_UPDATE sample_vote (sample_vote\<lparr>issue_votes_issue_id := Some 11\<rparr>))
        sample_db_with_issue
      = sample_db_with_issue"
proof -
  have h: "issue_votes_vote_type sample_vote
             = issue_votes_vote_type (sample_vote\<lparr>issue_votes_issue_id := Some 11\<rparr>)"
    by simp
  show ?thesis
    using h vote_update_same_type_keeps_counters [OF h, of "''issue_votes''" sample_db_with_issue]
    by simp
qed

section \<open>Facts about the progress form\<close>

lemmas sample_js_defs = sample_form_def sample_inputs_def sample_ui_def sample_props_def
  sample_world_def sample_numbers_def sample_env_def sample_payload_def rejecting_env_def
  offline_env_def

lemma uploadImages_ok:
  assumes "uploadMultipleImages e (map uri imgs) = Inr res" "imgs \<noteq> []"
  shows "uploadImages e imgs w
         = (Inr (map url (successful res)), w\<lparr>calls := calls w @ [UploadCall (map uri imgs)]\<rparr>)"
  using assms by (simp add: uploadImages_def Let_def)

lemma uploadImages_throws:
  assumes "uploadMultipleImages e (map uri imgs) = Inl err" "imgs \<noteq> []"
  shows "uploadImages e imgs w = (Inl err, w\<lparr>calls := calls w @ [UploadCall (map uri imgs)]\<rparr>)"
  using assms by (simp add: uploadImages_def Let_def)

lemma uploadImages_rows: "work_progress (snd (uploadImages e imgs w)) = work_progress w"
  by (simp add: uploadImages_def Let_def split: sum.splits)

lemma persist_rejected:
  assumes "submitWorkProgress e p \<noteq> Inr None"
  shows "persist e p w = (submitWorkProgress e p, w\<lparr>calls := calls w @ [InsertCall p]\<rparr>)"
  using assms by (simp add: persist_def Let_def split: sum.splits option.splits)

lemma persist_accepted:
  assumes "submitWorkProgress e p = Inr None"
  shows "persist e p w
         = (Inr None, w\<lparr>calls := calls w @ [InsertCall p], work_progress := work_progress w @ [p]\<rparr>)"
  using assms by (simp add: persist_def Let_def)

text \<open>
  Claim C5: a submission whose title or description is empty is rejected locally: the
  user is alerted, no upload and no insert call is made, and no row is stored. The
  outside world is returned as it was, whatever the collaborators would have done.
\<close>

theorem empty_title_or_description_rejected_locally:
  assumes "title (progressData u) = [] \<or> description (progressData u) = []"
  shows "handleSubmit e pr (u, w)
         = (u\<lparr>alerts := alerts u @ [Alert ''Error'' ''Please fill in title and description'']\<rparr>, w)"
  unfolding handleSubmit_def using assms by (cases "title (progressData u) = []") simp_all

theorem empty_title_or_description_rejected_locally_witness:
  "description (progressData (sample_ui\<lparr>progressData := sample_form\<lparr>description := []\<rparr>\<rparr>)) = []
   \<and> snd (handleSubmit sample_env sample_props
            (sample_ui\<lparr>progressData := sample_form\<lparr>description := []\<rparr>\<rparr>, sample_world))
       = \<lparr>work_progress = [], calls = []\<rparr>
   \<and> alerts (fst (handleSubmit sample_env sample_props
            (sample_ui\<lparr>progressData := sample_form\<lparr>description := []\<rparr>\<rparr>, sample_world)))
       = [Alert ''Error'' ''Please fill in title and description'']"
proof -
  have h: "title (progressData (sample_ui\<lparr>progressData := sample_form\<lparr>description := []\<rparr>\<rparr>)) = []
         \<or> description (progressData (sample_ui\<lparr>progressData := sample_form\<lparr>description := []\<rparr>\<rparr>)) = []"
    by simp
  show ?thesis
    using empty_title_or_description_rejected_locally [OF h, of sample_env sample_props sample_world]
    by (simp add: sample_ui_def sample_world_def)
qed

text \<open>
  Claim C6, as amended: a submission that passes the local validation, has images
  selected, whose upload call resolves (with whatever part of the images successful) and
  whose insert call resolves with no error stores exactly one row; its \<open>images\<close> are
  the URLs of the successful uploads, in their order, one per success. Exactly one
  upload call and one insert call are made.
\<close>

theorem partial_upload_stores_successful_urls:
  assumes valid: "title (progressData u) \<noteq> []" "description (progressData u) \<noteq> []"
    and imgs: "selectedImages u \<noteq> []"
    and up: "uploadMultipleImages e (map uri (selectedImages u)) = Inr res"
    and ok: "submitWorkProgress e (progressPayload e pr (map url (successful res)) (progressData u))
             = Inr None"
  shows "work_progress (snd (handleSubmit e pr (u, w)))
           = work_progress w @ [progressPayload e pr (map url (successful res)) (progressData u)]
       \<and> p_images (progressPayload e pr (map url (successful res)) (progressData u))
           = map url (successful res)
       \<and> length (p_images (progressPayload e pr (map url (successful res)) (progressData u)))
           = length (successful res)
       \<and> calls (snd (handleSubmit e pr (u, w)))
           = calls w @ [UploadCall (map uri (selectedImages u)),
                        InsertCall (progressPayload e pr (map url (successful res)) (progressData u))]"
proof -
  let ?p = "progressPayload e pr (map url (successful res)) (progressData u)"
  have run: "handleSubmit e pr (u, w)
      = (u\<lparr>alerts := alerts u @ [Alert ''Success'' ''Work progress has been submitted successfully''],
           loading := False\<rparr>,
         w\<lparr>calls := calls w @ [UploadCall (map uri (selectedImages u))] @ [InsertCall ?p],
           work_progress := work_progress w @ [?p]\<rparr>)"
    using valid by (simp add: handleSubmit_def uploadImages_ok [OF up imgs] persist_accepted [OF ok])
  have "p_images ?p = map url (successful res)"
    by (simp add: progressPayload_def)
  with run show ?thesis by simp
qed

theorem partial_upload_stores_successful_urls_witness:
  "length (selectedImages sample_ui) = 2
   \<and> uploadMultipleImages sample_env (map uri (selectedImages sample_ui))
       = Inr \<lparr>successful = [\<lparr>url = ''https://cdn/file:///a.jpg''\<rparr>]\<rparr>
   \<and> progressPayload sample_env sample_props [''https://cdn/file:///a.jpg''] sample_form
       = sample_payload
   \<and> work_progress (snd (handleSubmit sample_env sample_props (sample_ui, sample_world)))
       = [sample_payload]
   \<and> p_images sample_payload = [''https://cdn/file:///a.jpg'']"
proof -
  have valid: "title (progressData sample_ui) \<noteq> []" "description (progressData sample_ui) \<noteq> []"
    and imgs: "selectedImages sample_ui \<noteq> []"
    by (simp_all add: sample_ui_def sample_form_def)
  have up: "uploadMultipleImages sample_env (map uri (selectedImages sample_ui))
              = Inr \<lparr>successful = [\<lparr>url = ''https://cdn/file:///a.jpg''\<rparr>]\<rparr>"
    by (simp add: sample_env_def sample_ui_def)
  have payload: "progressPayload sample_env sample_props [''https://cdn/file:///a.jpg''] sample_form
                   = sample_payload"
    by (simp add: progressPayload_def sample_js_defs trim_def isWhiteSpace_def
        or_zero_def number_truthy_def)
  have ok: "submitWorkProgress sample_env
              (progressPayload sample_env sample_props
                 (map url (successful \<lparr>successful = [\<lparr>url = ''https://cdn/file:///a.jpg''\<rparr>]\<rparr>))
                 (progressData sample_ui))
            = Inr None"
    by (simp add: sample_env_def)
  have form: "progressData sample_ui = sample_form" by (simp add: sample_ui_def)
  show ?thesis
    using partial_upload_stores_successful_urls [OF valid imgs up ok, of sample_world] up payload
    by (simp add: form sample_world_def) (simp add: sample_ui_def sample_payload_def)
qed

text \<open>
  Claim C6 as stated, for every such submission, fails where the insert is rejected: two
  images are selected, one upload succeeds and one fails, the form is valid, the insert
  call resolves with an error (the case line 106 throws on), and no row is stored.
\<close>

theorem rejected_insert_stores_no_row:
  "length (selectedImages sample_ui) = 2
   \<and> uploadMultipleImages rejecting_env (map uri (selectedImages sample_ui))
       = Inr \<lparr>successful = [\<lparr>url = ''https://cdn/file:///a.jpg''\<rparr>]\<rparr>
   \<and> work_progress (snd (handleSubmit rejecting_env sample_props (sample_ui, sample_world))) = []
   \<and> calls (snd (handleSubmit rejecting_env sample_props (sample_ui, sample_world)))
       = [UploadCall [''file:///a.jpg'', ''file:///b.jpg''], InsertCall sample_payload]"
  by (simp add: handleSubmit_def uploadImages_def persist_def progressPayload_def Let_def
      sample_js_defs trim_def isWhiteSpace_def or_zero_def number_truthy_def)

text \<open>
  Claim C9: a submission that fails at the upload step (the upload call throws) or at
  the persist step (the insert call throws or resolves with an error) alerts the user
  with the error's message, leaves every form field and the selected images as they
  were at submit time, and stores no row.
\<close>

theorem failed_submission_keeps_form:
  assumes valid: "title (progressData u) \<noteq> []" "description (progressData u) \<noteq> []"
    and fails:
      "(selectedImages u \<noteq> [] \<and> uploadMultipleImages e (map uri (selectedImages u)) = Inl err)
       \<or> (fst (uploadImages e (selectedImages u) w) = Inr urls
          \<and> submitWorkProgress e (progressPayload e pr urls (progressData u))
              \<in> {Inl err, Inr (Some err)})"
  shows "progressData (fst (handleSubmit e pr (u, w))) = progressData u
       \<and> selectedImages (fst (handleSubmit e pr (u, w))) = selectedImages u
       \<and> alerts (fst (handleSubmit e pr (u, w)))
           = alerts u @ [Alert ''Error'' (''Failed to submit progress: '' @ message err)]
       \<and> work_progress (snd (handleSubmit e pr (u, w))) = work_progress w"
  using fails
proof (elim disjE conjE)
  assume "selectedImages u \<noteq> []" "uploadMultipleImages e (map uri (selectedImages u)) = Inl err"
  then show ?thesis
    using valid by (simp add: handleSubmit_def uploadImages_throws catch_error_def)
next
  assume up: "fst (uploadImages e (selectedImages u) w) = Inr urls"
    and sub: "submitWorkProgress e (progressPayload e pr urls (progressData u))
              \<in> {Inl err, Inr (Some err)}"
  obtain w1 where w1: "uploadImages e (selectedImages u) w = (Inr urls, w1)"
    using up by (cases "uploadImages e (selectedImages u) w") simp
  have rows: "work_progress w1 = work_progress w"
    using uploadImages_rows [of e "selectedImages u" w] w1 by simp
  have rej: "submitWorkProgress e (progressPayload e pr urls (progressData u)) \<noteq> Inr None"
    using sub by auto
  show ?thesis
    using valid sub rows
    by (auto simp: handleSubmit_def w1 persist_rejected [OF rej] catch_error_def)
qed

theorem failed_submission_keeps_form_witness:
  "uploadMultipleImages offline_env (map uri (selectedImages sample_ui))
     = Inl (Error ''Network request failed'')
   \<and> progressData (fst (handleSubmit offline_env sample_props (sample_ui, sample_world)))
       = sample_form
   \<and> selectedImages (fst (handleSubmit offline_env sample_props (sample_ui, sample_world)))
       = [\<lparr>uri = ''file:///a.jpg''\<rparr>, \<lparr>uri = ''file:///b.jpg''\<rparr>]
   \<and> alerts (fst (handleSubmit offline_env sample_props (sample_ui, sample_world)))
       = [Alert ''Error'' ''Failed to submit progress: Network request failed'']
   \<and> work_progress (snd (handleSubmit offline_env sample_props (sample_ui, sample_world))) = []
   \<and> submitWorkProgress rejecting_env sample_payload
       = Inr (Some (Error ''new row violates row-level security policy''))
   \<and> progressData (fst (handleSubmit rejecting_env sample_props (sample_ui, sample_world)))
       = sample_form
   \<and> alerts (fst (handleSubmit rejecting_env sample_props (sample_ui, sample_world)))
       = [Alert ''Error'' ''Failed to submit progress: new row violates row-level security policy'']
   \<and> work_progress (snd (handleSubmit rejecting_env sample_props (sample_ui, sample_world))) = []"
proof -
  have valid: "title (progressData sample_ui) \<noteq> []" "description (progressData sample_ui) \<noteq> []"
    by (simp_all add: sample_ui_def sample_form_def)
  have off: "uploadMultipleImages offline_env (map uri (selectedImages sample_ui))
               = Inl (Error ''Network request failed'')"
    by (simp add: offline_env_def sample_env_def)
  have upload_fails:
    "(selectedImages sample_ui \<noteq> []
       \<and> uploadMultipleImages offline_env (map uri (selectedImages sample_ui))
           = Inl (Error ''Network request failed''))
     \<or> (fst (uploadImages offline_env (selectedImages sample_ui) sample_world) = Inr []
        \<and> submitWorkProgress offline_env
             (progressPayload offline_env sample_props [] (progressData sample_ui))
            \<in> {Inl (Error ''Network request failed''), Inr (Some (Error ''Network request failed''))})"
    using off by (simp add: sample_ui_def)
  have urls: "fst (uploadImages rejecting_env (selectedImages sample_ui) sample_world)
                = Inr [''https://cdn/file:///a.jpg'']"
    by (simp add: uploadImages_def Let_def rejecting_env_def sample_env_def sample_ui_def)
  have rej: "submitWorkProgress rejecting_env p
               = Inr (Some (Error ''new row violates row-level security policy''))" for p
    by (simp add: rejecting_env_def)
  have persist_fails:
    "(selectedImages sample_ui \<noteq> []
       \<and> uploadMultipleImages rejecting_env (map uri (selectedImages sample_ui))
           = Inl (Error ''new row violates row-level security policy''))
     \<or> (fst (uploadImages rejecting_env (selectedImages sample_ui) sample_world)
           = Inr [''https://cdn/file:///a.jpg'']
        \<and> submitWorkProgress rejecting_env
             (progressPayload rejecting_env sample_props [''https://cdn/file:///a.jpg'']
                (progressData sample_ui))
            \<in> {Inl (Error ''new row violates row-level security policy''),
                Inr (Some (Error ''new row violates row-level security policy''))})"
    using urls rej by simp
  show ?thesis
    using failed_submission_keeps_form [OF valid upload_fails]
      failed_submission_keeps_form [OF valid persist_fails] off rej
    by (simp add: sample_ui_def sample_world_def)
qed

subsection \<open>The payload\<close>

lemma dropWhile_rev_dropWhile:
  "dropWhile P (rev (dropWhile P (rev (dropWhile P s)))) = rev (dropWhile P (rev (dropWhile P s)))"
proof -
  define a where "a = dropWhile P s"
  define b where "b = dropWhile P (rev a)"
  have a: "a = [] \<or> \<not> P (hd a)"
    unfolding a_def using hd_dropWhile [of P s] by blast
  have "rev a = takeWhile P (rev a) @ b" unfolding b_def by simp
  then have "a = rev b @ rev (takeWhile P (rev a))"
    by (metis rev_append rev_rev_ident)
  then have "b \<noteq> [] \<Longrightarrow> hd (rev b) = hd a"
    by (metis hd_append2 rev_is_Nil_conv)
  moreover have "a = [] \<Longrightarrow> b = []" unfolding b_def by simp
  ultimately have "rev b = [] \<or> \<not> P (hd (rev b))"
    using a by (cases "b = []") auto
  then have "dropWhile P (rev b) = rev b"
    by (simp add: dropWhile_eq_self_iff)
  then show ?thesis unfolding a_def b_def .
qed

text \<open>Trimming a trimmed text changes nothing.\<close>

lemma trim_trim: "trim (trim s) = trim s"
  unfolding trim_def by (simp add: dropWhile_rev_dropWhile)

lemma trimmed_entries_step:
  assumes "trimmed_entries pd"
  shows "trimmed_entries (setProgressData e pd i)"
  using assms
  by (cases i) (auto simp: trimmed_entries_def initialProgressData_def list_all_iff trim_trim)

lemma trimmed_entries_foldl:
  "trimmed_entries pd \<Longrightarrow> trimmed_entries (foldl (setProgressData e) pd inputs)"
  by (induction inputs arbitrary: pd) (simp_all add: trimmed_entries_step)

lemma trimmed_entries_form_after: "trimmed_entries (form_after e inputs)"
  unfolding form_after_def
  by (rule trimmed_entries_foldl) (simp add: trimmed_entries_def initialProgressData_def)

lemma or_zero_NaN: "or_zero NaN = Finite 0"
  by (simp add: or_zero_def number_truthy_def)

lemma or_zero_number: "n \<noteq> NaN \<Longrightarrow> or_zero n = n"
  by (cases n) (auto simp: or_zero_def number_truthy_def)

text \<open>The only payload \<open>handleSubmit\<close> sends is the one \<open>progressPayload\<close> builds from the form.\<close>

lemma handleSubmit_insert_call:
  assumes "InsertCall p \<in> set (calls (snd (handleSubmit e pr (u, w))))" "calls w = []"
  shows "\<exists>urls. p = progressPayload e pr urls (progressData u)"
  using assms
  by (auto simp: handleSubmit_def uploadImages_def persist_def Let_def
      split: if_splits sum.splits option.splits)

text \<open>
  Claim C7: in every payload the form submits, \<open>materials_used\<close> holds trimmed entries
  and no blank one, and \<open>labor_hours\<close> and \<open>expenses_incurred\<close> are what \<open>parseFloat\<close>
  gives on the form's texts, or zero when it gives NaN. The form is any state the
  component's handlers reach from the initial one.
\<close>

theorem submitted_payload_is_normalised:
  assumes "progressData u = form_after e inputs" "calls w = []"
    and "InsertCall p \<in> set (calls (snd (handleSubmit e pr (u, w))))"
  shows "list_all (\<lambda>m. trim m = m \<and> m \<noteq> []) (p_materials_used p)
       \<and> (parseFloat e (labor_hours (progressData u)) = NaN \<longrightarrow> p_labor_hours p = Finite 0)
       \<and> (parseFloat e (labor_hours (progressData u)) \<noteq> NaN \<longrightarrow>
            p_labor_hours p = parseFloat e (labor_hours (progressData u)))
       \<and> (parseFloat e (expenses_incurred (progressData u)) = NaN \<longrightarrow>
            p_expenses_incurred p = Finite 0)
       \<and> (parseFloat e (expenses_incurred (progressData u)) \<noteq> NaN \<longrightarrow>
            p_expenses_incurred p = parseFloat e (expenses_incurred (progressData u)))"
proof -
  obtain urls where p: "p = progressPayload e pr urls (progressData u)"
    using handleSubmit_insert_call [OF assms(3,2)] by blast
  have "trimmed_entries (progressData u)"
    using assms(1) trimmed_entries_form_after by simp
  then have "list_all (\<lambda>m. trim m = m \<and> m \<noteq> []) (p_materials_used p)"
    by (auto simp: p progressPayload_def trimmed_entries_def list_all_iff)
  then show ?thesis
    by (simp add: p progressPayload_def or_zero_NaN or_zero_number)
qed

theorem submitted_payload_is_normalised_witness:
  "progressData sample_ui = form_after sample_env sample_inputs
   \<and> calls sample_world = []
   \<and> InsertCall sample_payload
       \<in> set (calls (snd (handleSubmit sample_env sample_props (sample_ui, sample_world))))
   \<and> p_materials_used sample_payload = [''asphalt'', ''gravel'']
   \<and> list_all (\<lambda>m. trim m = m \<and> m \<noteq> []) (p_materials_used sample_payload)
   \<and> parseFloat sample_env (labor_hours (progressData sample_ui)) = Finite (5 / 2)
   \<and> p_labor_hours sample_payload = Finite (5 / 2)
   \<and> parseFloat sample_env (expenses_incurred (progressData sample_ui)) = NaN
   \<and> p_expenses_incurred sample_payload = Finite 0"
proof -
  have form: "progressData sample_ui = form_after sample_env sample_inputs"
    by (simp add: form_after_def sample_js_defs initialProgressData_def trim_def
        isWhiteSpace_def or_zero_def number_truthy_def)
  have w: "calls sample_world = []" by (simp add: sample_world_def)
  have sent: "InsertCall sample_payload
       \<in> set (calls (snd (handleSubmit sample_env sample_props (sample_ui, sample_world))))"
    by (simp add: handleSubmit_def uploadImages_def persist_def progressPayload_def Let_def
        sample_js_defs trim_def isWhiteSpace_def or_zero_def number_truthy_def)
  have parsed: "parseFloat sample_env (labor_hours (progressData sample_ui)) = Finite (5 / 2)"
    "parseFloat sample_env (expenses_incurred (progressData sample_ui)) = NaN"
    by (simp_all add: sample_js_defs)
  show ?thesis
    using submitted_payload_is_normalised [OF form w sent] form w sent parsed
    by (simp add: sample_payload_def)
qed

end
